theory Spec2Isabelle
  imports Main
begin

section \<open>JavaScript values and objects\<close>

text \<open>
  The two generators work on plain JavaScript objects (the options, the persisted
  configuration, the values read from the POM, the property bag \<open>this.props\<close>).
  The values that occur are \<open>undefined\<close>, \<open>null\<close>, booleans, strings and nested plain
  objects; numbers and arrays are left out (the one array, \<open>options.modules\<close>, is passed
  as a list of its own). An object is an association list in insertion order; a property
  read takes the first entry of a key, and a missing key reads as \<open>undefined\<close>.
\<close>

datatype jsval =
    JUndefined
  | JNull
  | JBool bool
  | JStr string
  | JObj "(string \<times> jsval) list"

type_synonym bag = "(string \<times> jsval) list"

datatype error = TypeError | Error string

fun truthy :: "jsval \<Rightarrow> bool" where
  "truthy JUndefined = False"
| "truthy JNull = False"
| "truthy (JBool b) = b"
| "truthy (JStr s) = (s \<noteq> [])"
| "truthy (JObj b) = True"

text \<open>\<open>a || b\<close> and \<open>a && b\<close> on values.\<close>

definition js_or :: "jsval \<Rightarrow> jsval \<Rightarrow> jsval" where
  "js_or a b = (if truthy a then a else b)"

definition js_and :: "jsval \<Rightarrow> jsval \<Rightarrow> jsval" where
  "js_and a b = (if truthy a then b else a)"

text \<open>\<open>String(v)\<close>, the conversion \<open>RegExp.prototype.test\<close> applies to its argument.\<close>

fun js_toString :: "jsval \<Rightarrow> string" where
  "js_toString JUndefined = ''undefined''"
| "js_toString JNull = ''null''"
| "js_toString (JBool b) = (if b then ''true'' else ''false'')"
| "js_toString (JStr s) = s"
| "js_toString (JObj b) = ''[object Object]''"

text \<open>\<open>object[key]\<close> on an object.\<close>

definition get :: "bag \<Rightarrow> string \<Rightarrow> jsval" where
  "get b k = (case map_of b k of None \<Rightarrow> JUndefined | Some v \<Rightarrow> v)"

text \<open>
  \<open>v[key]\<close> on any value: reading a property of \<open>undefined\<close> or \<open>null\<close> throws a
  TypeError; a boolean or a string has none of the property names read here
  (\<open>groupId\<close>, \<open>aemVersion\<close>, \<open>moduleType\<close>, \<open>aem.version\<close>).
\<close>

fun read_prop :: "jsval \<Rightarrow> string \<Rightarrow> error + jsval" where
  "read_prop JUndefined k = Inl TypeError"
| "read_prop JNull k = Inl TypeError"
| "read_prop (JBool b) k = Inr JUndefined"
| "read_prop (JStr s) k = Inr JUndefined"
| "read_prop (JObj b) k = Inr (get b k)"

text \<open>\<open>object[key] = v\<close>: an existing key keeps its place, a new one goes last.\<close>

fun assign :: "bag \<Rightarrow> string \<Rightarrow> jsval \<Rightarrow> bag" where
  "assign [] k v = [(k, v)]"
| "assign ((k', v') # b) k v = (if k' = k then (k, v) # b else (k', v') # assign b k v)"

text \<open>\<open>delete object[key]\<close>.\<close>

definition delete_key :: "bag \<Rightarrow> string \<Rightarrow> bag" where
  "delete_key b k = filter (\<lambda>p. fst p \<noteq> k) b"

subsection \<open>The lodash functions the generators call\<close>

text \<open>\<open>_.pick(object, keys)\<close>: the listed keys that the object has, in the order listed.\<close>

definition pick :: "bag \<Rightarrow> string list \<Rightarrow> bag" where
  "pick object keys =
     concat (map (\<lambda>k. case map_of object k of None \<Rightarrow> [] | Some v \<Rightarrow> [(k, v)]) keys)"

text \<open>\<open>_.omit(object, keys)\<close>.\<close>

definition omit :: "bag \<Rightarrow> string list \<Rightarrow> bag" where
  "omit object keys = filter (\<lambda>p. fst p \<notin> set keys) object"

text \<open>
  \<open>_.defaults(object, source)\<close>: for each key of the source, the destination takes the
  source's value when its own value is \<open>undefined\<close>.
\<close>

definition defaults :: "bag \<Rightarrow> bag \<Rightarrow> bag" where
  "defaults object source =
     foldl (\<lambda>obj key. if get obj key = JUndefined then assign obj key (get source key) else obj)
       object (map fst source)"

text \<open>
  \<open>_.isEmpty(value)\<close>: \<open>undefined\<close>, \<open>null\<close> and booleans are empty, a string when it
  has no characters, an object when it has no keys.
\<close>

fun isEmpty :: "jsval \<Rightarrow> bool" where
  "isEmpty JUndefined = True"
| "isEmpty JNull = True"
| "isEmpty (JBool b) = True"
| "isEmpty (JStr s) = (s = [])"
| "isEmpty (JObj b) = (b = [])"

section \<open>The generators\<close>

text \<open>
  The fields of a generator instance that the two classes read and write: the options
  it was invoked with, its property bag, the persisted configuration as
  \<open>this.config.getAll()\<close> returns it (a key per root property or module path), its
  path relative to the destination root, the generators it has composed with
  (\<open>composeWith(path, options)\<close>), and the template list handed to the emission step
  (\<open>_writing(files)\<close>), once it has been.
\<close>

record generator =
  options :: bag
  props :: bag
  config :: bag
  relativePath :: jsval
  destinationRoot :: string
  composed :: "(string \<times> bag) list"
  written :: "string list option"

subsection \<open>The root generator (generators/app/index.js)\<close>

definition unique :: "string list" where
  "unique = [''groupId'', ''version'', ''aemVersion'']"

text \<open>
  Lines 78 to 80: the POM's \<open>aem.version\<close> property, when the POM has one, fills
  \<open>aemVersion\<close> through \<open>||\<close>.
\<close>

definition adopt_pom_aemVersion :: "bag \<Rightarrow> bag \<Rightarrow> error + bag" where
  "adopt_pom_aemVersion pom p =
     (let pomProperties = get pom ''pomProperties'' in
      if truthy pomProperties then
        (case read_prop pomProperties ''aem.version'' of
           Inl e \<Rightarrow> Inl e
         | Inr v \<Rightarrow>
             if truthy v then Inr (assign p ''aemVersion'' (js_or (get p ''aemVersion'') v))
             else Inr p)
      else Inr p)"

text \<open>\<open>require.resolve\<close> over the module list, stopping at the first that is not found.\<close>

fun resolve_all :: "(string \<Rightarrow> error + string) \<Rightarrow> string list \<Rightarrow> error + string list" where
  "resolve_all resolve [] = Inr []"
| "resolve_all resolve (m # ms) =
     (case resolve m of
        Inl e \<Rightarrow> Inl e
      | Inr path \<Rightarrow>
          (case resolve_all resolve ms of Inl e \<Rightarrow> Inl e | Inr paths \<Rightarrow> Inr (path # paths)))"

text \<open>
  \<open>AEMGenerator.initializing\<close>. Its collaborators are parameters: \<open>readPom\<close> (the
  descriptor read at \<open>path.join(destinationRoot, dest)\<close>, as a function of \<open>dest\<close>; a
  flat bag that may be empty; \<open>path.join\<close> throws a TypeError when \<open>dest\<close>, a truthy
  \<open>generateInto\<close>, is not a string), the bag that
  \<open>GeneratorCommons.props(this)\<close> returns, the keys of \<open>GeneratorCommons.options\<close>,
  \<open>path.relative(destinationRoot, contextRoot)\<close>, \<open>require.resolve\<close> and the module
  list of the options. \<open>_.merge\<close> into the empty \<open>moduleOptions\<close> copies the picked
  properties. A module that does not resolve throws, and the phase ends there.
\<close>

definition app_initializing ::
  "(jsval \<Rightarrow> bag) \<Rightarrow> bag \<Rightarrow> string list \<Rightarrow> string \<Rightarrow> (string \<Rightarrow> error + string) \<Rightarrow>
   string list \<Rightarrow> generator \<Rightarrow> error + generator" where
  "app_initializing readPom commonsProps commonsOptionKeys relative resolve modules g =
     (let dest = js_or (get (options g) ''generateInto'') (JStr relative);
          options' = delete_key (options g) ''generateInto'';
          p1 = defaults [] (pick options' unique);
          p2 = defaults p1 (pick (config g) unique)
      in case dest of
           JStr d \<Rightarrow>
             (let pom = readPom dest;
                  p3 = defaults p2 (omit pom [''pomProperties''])
              in case adopt_pom_aemVersion pom p3 of
                   Inl e \<Rightarrow> Inl e
                 | Inr p4 \<Rightarrow>
                     (let p5 = defaults p4 commonsProps;
                          p6 = (if truthy (get options' ''defaults'')
                                then defaults p5 [(''version'', JStr ''1.0.0-SNAPSHOT''),
                                                  (''aemVersion'', JStr ''cloud'')]
                                else p5);
                          moduleOptions = assign (pick p6 commonsOptionKeys) ''parent'' (JObj p6)
                      in case resolve_all resolve modules of
                           Inl e \<Rightarrow> Inl e
                         | Inr paths \<Rightarrow>
                             Inr (g\<lparr>options := options', props := p6,
                                    composed := composed g @
                                      map (\<lambda>path. (path, moduleOptions)) paths\<rparr>)))
         | _ \<Rightarrow> Inl TypeError)"


text \<open>
  The descriptor's \<open>pomProperties['aem.version']\<close>, \<open>undefined\<close> when the descriptor has
  none, and whether it stands in for the property \<open>k\<close>.
\<close>

definition pom_aem_version :: "bag \<Rightarrow> jsval" where
  "pom_aem_version pom =
     (case read_prop (get pom ''pomProperties'') ''aem.version'' of
        Inl e \<Rightarrow> JUndefined
      | Inr v \<Rightarrow> v)"


subsection \<open>The integration tests generator\<close>

text \<open>
  \<open>invalidPackageRegex = /[^a-zA-Z.]/g\<close>. The regular expression is one object of the
  module, shared by every call, and it carries the \<open>g\<close> flag: \<open>test\<close> starts the search
  at the object's \<open>lastIndex\<close>, sets \<open>lastIndex\<close> just behind the match when there is one
  and back to 0 when there is none. \<open>lastIndex\<close> is passed in and returned.
\<close>

definition invalidPackageChar :: "char \<Rightarrow> bool" where
  "invalidPackageChar c =
     (let n = (of_char c :: nat)
      in \<not> ((97 \<le> n \<and> n \<le> 122) \<or> (65 \<le> n \<and> n \<le> 90) \<or> n = 46))"

fun first_match :: "nat \<Rightarrow> string \<Rightarrow> nat option" where
  "first_match i [] = None"
| "first_match i (c # cs) = (if invalidPackageChar c then Some i else first_match (Suc i) cs)"

definition invalidPackageRegex_test :: "nat \<Rightarrow> string \<Rightarrow> bool \<times> nat" where
  "invalidPackageRegex_test lastIndex s =
     (case first_match lastIndex (drop lastIndex s) of
        None \<Rightarrow> (False, 0)
      | Some i \<Rightarrow> (True, Suc i))"

definition uniqueProperties :: "string list" where
  "uniqueProperties = [''package'', ''publish'']"

definition IntegrationTestsModuleType :: string where
  "IntegrationTestsModuleType = ''tests-it''"

definition testClientCoordinates :: "jsval \<Rightarrow> jsval" where
  "testClientCoordinates version =
     (if version = JStr ''cloud''
      then JObj [(''groupId'', JStr ''com.adobe.cq''),
                 (''artifactId'', JStr ''aem-cloud-testing-clients'')]
      else JObj [(''groupId'', JStr ''com.adobe.cq''),
                 (''artifactId'', JStr ''cq-testing-clients-65'')])"

text \<open>
  \<open>initializing\<close>, lines 69 to 74: the bag starts from the options' \<open>package\<close> and
  \<open>publish\<close>, and a package the regular expression matches is deleted. The test runs
  only on a truthy package.
\<close>

definition it_initializing_pick :: "nat \<Rightarrow> generator \<Rightarrow> nat \<times> generator" where
  "it_initializing_pick lastIndex g =
     (let p0 = defaults [] (pick (options g) uniqueProperties)
      in if truthy (get p0 ''package'') then
           (case invalidPackageRegex_test lastIndex (js_toString (get p0 ''package'')) of
              (True, lastIndex') \<Rightarrow> (lastIndex', g\<lparr>props := delete_key p0 ''package''\<rparr>)
            | (False, lastIndex') \<Rightarrow> (lastIndex', g\<lparr>props := p0\<rparr>))
         else (lastIndex, g\<lparr>props := p0\<rparr>))"

text \<open>\<open>initializing\<close>, lines 78 to 84: the parent's group id and the fallback of \<open>publish\<close>.\<close>

definition it_initializing_fill :: "generator \<Rightarrow> error + generator" where
  "it_initializing_fill g =
     (case read_prop (get (props g) ''parent'') ''groupId'' of
        Inl e \<Rightarrow> Inl e
      | Inr groupId \<Rightarrow>
          (let p1 = (if truthy groupId
                     then assign (props g) ''package'' (js_or (get (props g) ''package'') groupId)
                     else props g);
               p2 = (if truthy (get (options g) ''defaults'')
                     then assign p1 ''publish'' (js_or (get p1 ''publish'') (JBool True))
                     else p1)
           in Inr (g\<lparr>props := p2\<rparr>)))"

text \<open>
  \<open>IntegrationTestsGenerator.initializing\<close>. The mixin method \<open>_initializing\<close> called at
  line 76 is a parameter: any function of the generator that returns it updated or
  throws. The regular expression's \<open>lastIndex\<close> is returned whether or not the phase
  throws.
\<close>

definition it_initializing ::
  "(generator \<Rightarrow> error + generator) \<Rightarrow> nat \<Rightarrow> generator \<Rightarrow> nat \<times> (error + generator)" where
  "it_initializing mixin_initializing lastIndex g =
     (case it_initializing_pick lastIndex g of
        (lastIndex', g0) \<Rightarrow>
          (lastIndex',
           case mixin_initializing g0 of
             Inl e \<Rightarrow> Inl e
           | Inr g1 \<Rightarrow> it_initializing_fill g1))"

text \<open>
  A stand-in for \<open>_initializing\<close> on which the phases are run at concrete inputs: it
  copies the \<open>parent\<close> option into the bag, which line 78 reads from there.
\<close>

definition parent_mixin :: "generator \<Rightarrow> error + generator" where
  "parent_mixin g = Inr (g\<lparr>props := defaults (props g) (pick (options g) [''parent''])\<rparr>)"

text \<open>
  \<open>default\<close>, lines 135 to 139: the callback of \<open>_.each\<close> over the persisted
  configuration, in key order, up to the first throw.
\<close>

fun check_config :: "jsval \<Rightarrow> bag \<Rightarrow> error + unit" where
  "check_config path [] = Inr ()"
| "check_config path ((key, v) # rest) =
     (case read_prop v ''moduleType'' of
        Inl e \<Rightarrow> Inl e
      | Inr moduleType \<Rightarrow>
          if truthy moduleType \<and> moduleType = JStr IntegrationTestsModuleType \<and> JStr key \<noteq> path
          then Inl (Error ''Refusing to create a second Integration Testing module.'')
          else check_config path rest)"

definition appGenerator :: string where
  "appGenerator = ''../app''"

text \<open>\<open>IntegrationTestsGenerator.default\<close>.\<close>

definition it_default :: "generator \<Rightarrow> error + generator" where
  "it_default g =
     (if isEmpty (get (options g) ''parent'') then
        (case check_config (relativePath g) (config g) of
           Inl e \<Rightarrow> Inl e
         | Inr u \<Rightarrow>
             Inr (g\<lparr>composed := composed g @
                    [(appGenerator,
                      [(''generateInto'', JStr (destinationRoot g)),
                       (''showBuildOutput'', get (options g) ''showBuildOutput'')])]\<rparr>))
      else Inr g)"

text \<open>
  Promises, by how they settle. \<open>then\<close> with a function runs it on the value of a
  fulfilled promise and passes a rejection on; \<open>then\<close> with an argument that is not a
  function (line 159 passes a promise) ignores the argument and passes the settlement on.
\<close>

datatype 'a promise = Fulfilled 'a | Rejected error

definition then_call :: "'a promise \<Rightarrow> ('a \<Rightarrow> 'b promise) \<Rightarrow> 'b promise" where
  "then_call p f = (case p of Fulfilled v \<Rightarrow> f v | Rejected e \<Rightarrow> Rejected e)"

definition then_value :: "'a promise \<Rightarrow> 'b \<Rightarrow> 'a promise" where
  "then_value p x = p"

text \<open>\<open>s.replaceAll('.', sep)\<close>.\<close>

definition replaceAll_dot :: "string \<Rightarrow> string \<Rightarrow> string" where
  "replaceAll_dot s sep = concat (map (\<lambda>c. if c = CHR ''.'' then sep else [c]) s)"

text \<open>\<open>writing\<close>, lines 148 to 153: the template list.\<close>

definition writing_files :: "(string \<Rightarrow> string list) \<Rightarrow> generator \<Rightarrow> string list" where
  "writing_files listTemplates g =
     (let files = [] @ listTemplates ''shared''
      in if truthy (get (props g) ''publish'') then files @ listTemplates ''publish'' else files)"

text \<open>
  \<open>IntegrationTestsGenerator.writing\<close>. The mixin methods \<open>_latestRelease\<close>,
  \<open>_apiCoordinates\<close> and \<open>_listTemplates\<close> and \<open>path.sep\<close> are parameters. A promise
  carries the value it settles with and the generator as its callbacks have left it.
  \<open>Inl\<close> is a throw before a promise is returned.
\<close>

definition it_writing ::
  "(jsval \<Rightarrow> jsval promise) \<Rightarrow> (jsval \<Rightarrow> jsval) \<Rightarrow> (string \<Rightarrow> string list) \<Rightarrow> string \<Rightarrow>
   generator \<Rightarrow> error + generator promise" where
  "it_writing latestRelease apiCoordinates listTemplates sep g =
     (let files = writing_files listTemplates g
      in case read_prop (get (props g) ''parent'') ''aemVersion'' of
           Inl e \<Rightarrow> Inl e
         | Inr aemVersion \<Rightarrow>
             Inr (then_call
                    (then_value
                       (then_call (latestRelease (testClientCoordinates aemVersion))
                          (\<lambda>clientMetadata.
                             Fulfilled (JUndefined,
                               g\<lparr>props := assign (props g) ''testingClient'' clientMetadata\<rparr>)))
                       (latestRelease (apiCoordinates aemVersion)))
                    (\<lambda>(aemMetadata, g1).
                       (let p1 = assign (props g1) ''aem'' aemMetadata
                        in case get p1 ''package'' of
                             JStr s \<Rightarrow>
                               Fulfilled
                                 (g1\<lparr>props := assign p1 ''packagePath'' (JStr (replaceAll_dot s sep)),
                                     written := Some files\<rparr>)
                           | _ \<Rightarrow> Rejected TypeError))))"

section \<open>Properties\<close>

subsection \<open>Reading the result of the object operations\<close>

lemma get_Nil: "get [] k = JUndefined"
  by (simp add: get_def)

lemma get_Cons: "get ((k', v) # b) k = (if k' = k then v else get b k)"
  by (simp add: get_def)

lemma get_assign: "get (assign b k v) k' = (if k' = k then v else get b k')"
  by (induction b) (auto simp: get_def)

lemma get_delete_key: "get (delete_key b k) k' = (if k' = k then JUndefined else get b k')"
  by (induction b) (auto simp: get_def delete_key_def)






subsection \<open>The artifact coordinates of the testing client\<close>

text \<open>
  Claim C9. \<open>testClientCoordinates\<close> is a lookup on the platform tag: for the string
  \<open>cloud\<close> it returns group \<open>com.adobe.cq\<close> with artifact
  \<open>aem-cloud-testing-clients\<close>, and for every other value group \<open>com.adobe.cq\<close> with
  artifact \<open>cq-testing-clients-65\<close>. It reads nothing but its argument.
\<close>

theorem testClientCoordinates_lookup:
  "testClientCoordinates (JStr ''cloud'')
     = JObj [(''groupId'', JStr ''com.adobe.cq''), (''artifactId'', JStr ''aem-cloud-testing-clients'')]
   \<and> (\<forall>version. version \<noteq> JStr ''cloud'' \<longrightarrow>
          testClientCoordinates version
            = JObj [(''groupId'', JStr ''com.adobe.cq''), (''artifactId'', JStr ''cq-testing-clients-65'')])"
  by (simp add: testClientCoordinates_def)

theorem testClientCoordinates_lookup_witness:
  "JStr ''6.5'' \<noteq> JStr ''cloud''
   \<and> testClientCoordinates (JStr ''6.5'')
       = JObj [(''groupId'', JStr ''com.adobe.cq''), (''artifactId'', JStr ''cq-testing-clients-65'')]
   \<and> JNull \<noteq> JStr ''cloud''
   \<and> testClientCoordinates JNull
       = JObj [(''groupId'', JStr ''com.adobe.cq''), (''artifactId'', JStr ''cq-testing-clients-65'')]"
  using testClientCoordinates_lookup by simp

subsection \<open>The duplicate module check of \<open>default\<close>\<close>

lemma read_prop_present:
  "v \<noteq> JUndefined \<Longrightarrow> v \<noteq> JNull \<Longrightarrow> \<exists>x. read_prop v k = Inr x"
  by (cases v) auto

lemma check_config_reaches_record:
  assumes "\<forall>(k, w) \<in> set pre. w \<noteq> JUndefined \<and> w \<noteq> JNull"
      and "read_prop v ''moduleType'' = Inr (JStr ''tests-it'')"
      and "JStr key \<noteq> path"
  shows "check_config path (pre @ (key, v) # post)
         = Inl (Error ''Refusing to create a second Integration Testing module.'')"
  using assms(1)
proof (induction pre)
  case Nil
  then show ?case using assms(2,3) by (simp add: IntegrationTestsModuleType_def)
next
  case (Cons a pre)
  obtain k w where a: "a = (k, w)" by (cases a)
  from Cons.prems a have nn: "w \<noteq> JUndefined" "w \<noteq> JNull" by simp_all
  from read_prop_present [OF nn] obtain x where x: "read_prop w ''moduleType'' = Inr x"
    by blast
  from Cons.IH Cons.prems
  have "check_config path (pre @ (key, v) # post)
         = Inl (Error ''Refusing to create a second Integration Testing module.'')"
    by simp
  with a x show ?case by simp
qed

lemma check_config_reaches_null:
  assumes "\<forall>(k, w) \<in> set pre. w \<noteq> JUndefined \<and> w \<noteq> JNull
             \<and> (read_prop w ''moduleType'' = Inr (JStr ''tests-it'') \<longrightarrow> JStr k = path)"
      and "v = JNull \<or> v = JUndefined"
  shows "check_config path (pre @ (key, v) # post) = Inl TypeError"
  using assms(1)
proof (induction pre)
  case Nil
  then show ?case using assms(2) by auto
next
  case (Cons a pre)
  obtain k w where a: "a = (k, w)" by (cases a)
  from Cons.prems a have nn: "w \<noteq> JUndefined" "w \<noteq> JNull" by simp_all
  from read_prop_present [OF nn] obtain x where x: "read_prop w ''moduleType'' = Inr x"
    by blast
  from Cons.prems a x have ok: "x = JStr ''tests-it'' \<longrightarrow> JStr k = path" by simp
  from Cons.IH Cons.prems
  have "check_config path (pre @ (key, v) # post) = Inl TypeError"
    by simp
  with a x ok show ?case by (auto simp: IntegrationTestsModuleType_def)
qed

lemma check_config_passes:
  assumes "\<forall>(key, v) \<in> set cfg. v \<noteq> JUndefined \<and> v \<noteq> JNull"
      and "\<forall>(key, v) \<in> set cfg. read_prop v ''moduleType'' = Inr (JStr ''tests-it'') \<longrightarrow> JStr key = path"
  shows "check_config path cfg = Inr ()"
  using assms
proof (induction cfg)
  case Nil
  then show ?case by simp
next
  case (Cons a cfg)
  obtain key v where a: "a = (key, v)" by (cases a)
  from Cons.prems(1) a obtain x where x: "read_prop v ''moduleType'' = Inr x"
    by (cases v) auto
  from Cons.IH Cons.prems have ih: "check_config path cfg = Inr ()" by simp
  from Cons.prems(2) a x have "x = JStr ''tests-it'' \<longrightarrow> JStr key = path" by simp
  with a x ih show ?case by (auto simp: IntegrationTestsModuleType_def)
qed

text \<open>
  Claim C2, as amended. Invoked without a parent (the \<open>parent\<close> option is empty),
  \<open>default\<close> walks the entries of the persisted configuration in key order. It throws the
  error that refuses a second integration testing module when it reaches an entry of module
  type \<open>tests-it\<close> under a key other than this module's relative path and no entry
  before that one is \<open>null\<close> or \<open>undefined\<close>. It throws a TypeError when it reaches a
  \<open>null\<close> or \<open>undefined\<close> entry first. When no entry is \<open>null\<close> or \<open>undefined\<close> and
  every entry of module type \<open>tests-it\<close> has this module's relative path as its key, it
  succeeds and composes with the root generator.
\<close>

theorem it_default_singleton:
  assumes "isEmpty (get (options g) ''parent'')"
  shows "(\<forall>pre key v post.
            config g = pre @ (key, v) # post
            \<and> (\<forall>(k, w) \<in> set pre. w \<noteq> JUndefined \<and> w \<noteq> JNull)
            \<and> read_prop v ''moduleType'' = Inr (JStr ''tests-it'') \<and> JStr key \<noteq> relativePath g
          \<longrightarrow> it_default g = Inl (Error ''Refusing to create a second Integration Testing module.''))
       \<and> (\<forall>pre key v post.
            config g = pre @ (key, v) # post
            \<and> (\<forall>(k, w) \<in> set pre. w \<noteq> JUndefined \<and> w \<noteq> JNull
                  \<and> (read_prop w ''moduleType'' = Inr (JStr ''tests-it'') \<longrightarrow> JStr k = relativePath g))
            \<and> (v = JNull \<or> v = JUndefined)
          \<longrightarrow> it_default g = Inl TypeError)
       \<and> ((\<forall>(k, w) \<in> set (config g). w \<noteq> JUndefined \<and> w \<noteq> JNull
                  \<and> (read_prop w ''moduleType'' = Inr (JStr ''tests-it'') \<longrightarrow> JStr k = relativePath g))
          \<longrightarrow> it_default g
              = Inr (g\<lparr>composed := composed g @
                      [(appGenerator,
                        [(''generateInto'', JStr (destinationRoot g)),
                         (''showBuildOutput'', get (options g) ''showBuildOutput'')])]\<rparr>))"
proof (intro conjI allI impI)
  fix pre key v post
  assume a: "config g = pre @ (key, v) # post
            \<and> (\<forall>(k, w) \<in> set pre. w \<noteq> JUndefined \<and> w \<noteq> JNull)
            \<and> read_prop v ''moduleType'' = Inr (JStr ''tests-it'') \<and> JStr key \<noteq> relativePath g"
  then have "check_config (relativePath g) (pre @ (key, v) # post)
      = Inl (Error ''Refusing to create a second Integration Testing module.'')"
    by (intro check_config_reaches_record) simp_all
  with a assms show "it_default g = Inl (Error ''Refusing to create a second Integration Testing module.'')"
    by (simp add: it_default_def)
next
  fix pre key v post
  assume a: "config g = pre @ (key, v) # post
            \<and> (\<forall>(k, w) \<in> set pre. w \<noteq> JUndefined \<and> w \<noteq> JNull
                  \<and> (read_prop w ''moduleType'' = Inr (JStr ''tests-it'') \<longrightarrow> JStr k = relativePath g))
            \<and> (v = JNull \<or> v = JUndefined)"
  then have "check_config (relativePath g) (pre @ (key, v) # post) = Inl TypeError"
    by (intro check_config_reaches_null) simp_all
  with a assms show "it_default g = Inl TypeError"
    by (simp add: it_default_def)
next
  assume a: "\<forall>(k, w) \<in> set (config g). w \<noteq> JUndefined \<and> w \<noteq> JNull
                  \<and> (read_prop w ''moduleType'' = Inr (JStr ''tests-it'') \<longrightarrow> JStr k = relativePath g)"
  then have "check_config (relativePath g) (config g) = Inr ()"
    by (intro check_config_passes) auto
  with assms show "it_default g
              = Inr (g\<lparr>composed := composed g @
                      [(appGenerator,
                        [(''generateInto'', JStr (destinationRoot g)),
                         (''showBuildOutput'', get (options g) ''showBuildOutput'')])]\<rparr>)"
    by (simp add: it_default_def)
qed

theorem it_default_singleton_witness:
  "it_default \<lparr>options = [], props = [],
       config = [(''groupId'', JStr ''com.mysite''), (''it'', JObj [(''moduleType'', JStr ''tests-it'')]),
                 (''core'', JNull)],
       relativePath = JStr ''it2'', destinationRoot = ''/project'', composed = [], written = None\<rparr>
     = Inl (Error ''Refusing to create a second Integration Testing module.'')
   \<and> it_default \<lparr>options = [], props = [],
       config = [(''groupId'', JStr ''com.mysite''), (''core'', JNull),
                 (''it'', JObj [(''moduleType'', JStr ''tests-it'')])],
       relativePath = JStr ''it2'', destinationRoot = ''/project'', composed = [], written = None\<rparr>
     = Inl TypeError
   \<and> it_default \<lparr>options = [], props = [],
       config = [(''groupId'', JStr ''com.mysite''), (''it'', JObj [(''moduleType'', JStr ''tests-it'')])],
       relativePath = JStr ''it'', destinationRoot = ''/project'', composed = [], written = None\<rparr>
     = Inr \<lparr>options = [], props = [],
       config = [(''groupId'', JStr ''com.mysite''), (''it'', JObj [(''moduleType'', JStr ''tests-it'')])],
       relativePath = JStr ''it'', destinationRoot = ''/project'',
       composed = [(''../app'', [(''generateInto'', JStr ''/project''), (''showBuildOutput'', JUndefined)])],
       written = None\<rparr>"
proof -
  let ?rec = "JObj [(''moduleType'', JStr ''tests-it'')]"
  let ?g1 = "\<lparr>options = [], props = [],
       config = [(''groupId'', JStr ''com.mysite''), (''it'', ?rec), (''core'', JNull)],
       relativePath = JStr ''it2'', destinationRoot = ''/project'', composed = [], written = None\<rparr>"
  let ?g2 = "\<lparr>options = [], props = [],
       config = [(''groupId'', JStr ''com.mysite''), (''core'', JNull), (''it'', ?rec)],
       relativePath = JStr ''it2'', destinationRoot = ''/project'', composed = [], written = None\<rparr>"
  let ?g3 = "\<lparr>options = [], props = [],
       config = [(''groupId'', JStr ''com.mysite''), (''it'', ?rec)],
       relativePath = JStr ''it'', destinationRoot = ''/project'', composed = [], written = None\<rparr>"
  have e: "isEmpty (get [] ''parent'')" by (simp add: get_Nil)
  have c1: "config ?g1 = [(''groupId'', JStr ''com.mysite'')] @ (''it'', ?rec) # [(''core'', JNull)]"
    by simp
  have c2: "config ?g2 = [(''groupId'', JStr ''com.mysite'')] @ (''core'', JNull) # [(''it'', ?rec)]"
    by simp
  from it_default_singleton [of ?g1] e
  have "\<forall>pre key v post.
            config ?g1 = pre @ (key, v) # post
            \<and> (\<forall>(k, w) \<in> set pre. w \<noteq> JUndefined \<and> w \<noteq> JNull)
            \<and> read_prop v ''moduleType'' = Inr (JStr ''tests-it'') \<and> JStr key \<noteq> relativePath ?g1
          \<longrightarrow> it_default ?g1 = Inl (Error ''Refusing to create a second Integration Testing module.'')"
    by simp
  from this [rule_format, of "[(''groupId'', JStr ''com.mysite'')]" "''it''" ?rec "[(''core'', JNull)]"] c1
  have r1: "it_default ?g1 = Inl (Error ''Refusing to create a second Integration Testing module.'')"
    by (simp add: get_Cons)
  from it_default_singleton [of ?g2] e
  have "\<forall>pre key v post.
            config ?g2 = pre @ (key, v) # post
            \<and> (\<forall>(k, w) \<in> set pre. w \<noteq> JUndefined \<and> w \<noteq> JNull
                  \<and> (read_prop w ''moduleType'' = Inr (JStr ''tests-it'') \<longrightarrow> JStr k = relativePath ?g2))
            \<and> (v = JNull \<or> v = JUndefined)
          \<longrightarrow> it_default ?g2 = Inl TypeError"
    by simp
  from this [rule_format, of "[(''groupId'', JStr ''com.mysite'')]" "''core''" JNull "[(''it'', ?rec)]"] c2
  have r2: "it_default ?g2 = Inl TypeError"
    by simp
  from it_default_singleton [of ?g3] e
  have r3: "it_default ?g3 = Inr (?g3\<lparr>composed := composed ?g3 @
                      [(appGenerator,
                        [(''generateInto'', JStr (destinationRoot ?g3)),
                         (''showBuildOutput'', get (options ?g3) ''showBuildOutput'')])]\<rparr>)"
    by (simp add: get_Cons)
  from r1 r2 r3 show ?thesis by (simp add: get_Nil appGenerator_def)
qed

text \<open>
  The claim as first stated fails over a configuration with a \<open>null\<close> entry before the
  record: \<open>default\<close> throws a TypeError, under the record's own path, where the claim has
  it succeed, and under another path, where the claim has it refuse.
\<close>

theorem it_default_singleton_counterexample:
  "it_default \<lparr>options = [], props = [],
       config = [(''core'', JNull), (''it'', JObj [(''moduleType'', JStr ''tests-it'')])],
       relativePath = JStr ''it'', destinationRoot = ''/project'', composed = [], written = None\<rparr>
     = Inl TypeError
   \<and> it_default \<lparr>options = [], props = [],
       config = [(''core'', JNull), (''it'', JObj [(''moduleType'', JStr ''tests-it'')])],
       relativePath = JStr ''it2'', destinationRoot = ''/project'', composed = [], written = None\<rparr>
     = Inl TypeError"
  by (simp add: it_default_def get_Nil)

text \<open>
  Claim C7. Invoked as a child (the \<open>parent\<close> option is not empty), \<open>default\<close> does
  not run the duplicate module check, so it cannot throw, whatever the persisted
  configuration holds, and it composes with no generator: the generator is returned as
  it was.
\<close>

theorem it_default_child:
  "\<not> isEmpty (get (options g) ''parent'') \<Longrightarrow> it_default g = Inr g"
  by (simp add: it_default_def)

theorem it_default_child_witness:
  "\<not> isEmpty (get [(''parent'', JObj [(''groupId'', JStr ''com.mysite'')])] ''parent'')
   \<and> check_config (JStr ''it2'') [(''it'', JObj [(''moduleType'', JStr ''tests-it'')])]
       = Inl (Error ''Refusing to create a second Integration Testing module.'')
   \<and> it_default \<lparr>options = [(''parent'', JObj [(''groupId'', JStr ''com.mysite'')])], props = [],
         config = [(''it'', JObj [(''moduleType'', JStr ''tests-it'')])],
         relativePath = JStr ''it2'', destinationRoot = ''/project'', composed = [], written = None\<rparr>
     = Inr \<lparr>options = [(''parent'', JObj [(''groupId'', JStr ''com.mysite'')])], props = [],
         config = [(''it'', JObj [(''moduleType'', JStr ''tests-it'')])],
         relativePath = JStr ''it2'', destinationRoot = ''/project'', composed = [], written = None\<rparr>"
proof -
  have ne: "\<not> isEmpty (get [(''parent'', JObj [(''groupId'', JStr ''com.mysite'')])] ''parent'')"
    by (simp add: get_Cons)
  have chk: "check_config (JStr ''it2'') [(''it'', JObj [(''moduleType'', JStr ''tests-it'')])]
       = Inl (Error ''Refusing to create a second Integration Testing module.'')"
    by (simp add: get_Cons IntegrationTestsModuleType_def)
  show ?thesis
    using ne chk
      it_default_child [of "\<lparr>options = [(''parent'', JObj [(''groupId'', JStr ''com.mysite'')])], props = [],
         config = [(''it'', JObj [(''moduleType'', JStr ''tests-it'')])],
         relativePath = JStr ''it2'', destinationRoot = ''/project'', composed = [], written = None\<rparr>"]
    by simp
qed

subsection \<open>The template list of \<open>writing\<close>\<close>

lemma writing_files_eq:
  "writing_files listTemplates g
     = listTemplates ''shared''
       @ (if truthy (get (props g) ''publish'') then listTemplates ''publish'' else [])"
  by (simp add: writing_files_def Let_def)

lemma it_writing_written:
  assumes "it_writing latestRelease apiCoordinates listTemplates sep g = Inr (Fulfilled g')"
  shows "written g' = Some (writing_files listTemplates g)"
  using assms
  by (auto simp: it_writing_def Let_def then_call_def then_value_def
      split: sum.splits promise.splits jsval.splits)

text \<open>
  Claim C6. The template list holds every template of the \<open>shared\<close> set; when
  \<open>publish\<close> is truthy it is the shared templates followed by the \<open>publish\<close>
  templates, and otherwise the shared templates alone; it depends on the bag only through
  the truth value of \<open>publish\<close>; and it is the list handed to the emission step whenever
  \<open>writing\<close> gets that far.
\<close>

theorem writing_files_selection:
  "set (listTemplates ''shared'') \<subseteq> set (writing_files listTemplates g)
   \<and> (truthy (get (props g) ''publish'') \<longrightarrow>
        writing_files listTemplates g = listTemplates ''shared'' @ listTemplates ''publish'')
   \<and> (\<not> truthy (get (props g) ''publish'') \<longrightarrow>
        writing_files listTemplates g = listTemplates ''shared'')
   \<and> (truthy (get (props g) ''publish'') = truthy (get (props h) ''publish'') \<longrightarrow>
        writing_files listTemplates g = writing_files listTemplates h)
   \<and> (\<forall>g'. it_writing latestRelease apiCoordinates listTemplates sep g = Inr (Fulfilled g') \<longrightarrow>
        written g' = Some (writing_files listTemplates g))"
  by (auto simp: writing_files_eq dest: it_writing_written)

theorem writing_files_selection_witness:
  "truthy (JBool True)
   \<and> writing_files (\<lambda>n. if n = ''shared'' then [''pom.xml'', ''README.md''] else [''publish.xml''])
       \<lparr>options = [], props = [(''publish'', JBool True)], config = [], relativePath = JStr ''it'',
        destinationRoot = ''/project'', composed = [], written = None\<rparr>
     = [''pom.xml'', ''README.md'', ''publish.xml'']
   \<and> \<not> truthy (JBool False)
   \<and> writing_files (\<lambda>n. if n = ''shared'' then [''pom.xml'', ''README.md''] else [''publish.xml''])
       \<lparr>options = [], props = [(''publish'', JBool False)], config = [], relativePath = JStr ''it'',
        destinationRoot = ''/project'', composed = [], written = None\<rparr>
     = [''pom.xml'', ''README.md'']"
  using
    writing_files_selection [of "\<lambda>n. if n = ''shared'' then [''pom.xml'', ''README.md''] else [''publish.xml'']"
       "\<lparr>options = [], props = [(''publish'', JBool True)], config = [], relativePath = JStr ''it'',
        destinationRoot = ''/project'', composed = [], written = None\<rparr>"]
    writing_files_selection [of "\<lambda>n. if n = ''shared'' then [''pom.xml'', ''README.md''] else [''publish.xml'']"
       "\<lparr>options = [], props = [(''publish'', JBool False)], config = [], relativePath = JStr ''it'',
        destinationRoot = ''/project'', composed = [], written = None\<rparr>"]
  by (simp add: get_Cons)

subsection \<open>The package of the integration tests module\<close>

text \<open>
  Claim C10. When, after \<open>_initializing\<close>, the parent's group id is truthy and the bag
  has no truthy package, \<open>initializing\<close> ends with the package set to the parent's group
  id. This covers a package that was supplied and deleted as invalid: it is replaced by
  the parent's group id, not left unset.
\<close>

theorem it_initializing_package_from_parent:
  assumes "mixin_initializing (snd (it_initializing_pick lastIndex g)) = Inr g1"
      and "read_prop (get (props g1) ''parent'') ''groupId'' = Inr groupId"
      and "truthy groupId"
      and "\<not> truthy (get (props g1) ''package'')"
  shows "\<exists>g'. snd (it_initializing mixin_initializing lastIndex g) = Inr g'
              \<and> get (props g') ''package'' = groupId"
  using assms
  by (auto simp: it_initializing_def it_initializing_fill_def Let_def js_or_def get_assign
      split: prod.splits)

theorem it_initializing_package_from_parent_witness:
  "parent_mixin (snd (it_initializing_pick 0
      \<lparr>options = [(''package'', JStr ''com123''), (''parent'', JObj [(''groupId'', JStr ''com.mysite'')])],
       props = [], config = [], relativePath = JStr ''it'', destinationRoot = ''/project'',
       composed = [], written = None\<rparr>))
    = Inr \<lparr>options = [(''package'', JStr ''com123''), (''parent'', JObj [(''groupId'', JStr ''com.mysite'')])],
       props = [(''parent'', JObj [(''groupId'', JStr ''com.mysite'')])], config = [],
       relativePath = JStr ''it'', destinationRoot = ''/project'', composed = [], written = None\<rparr>
   \<and> (\<exists>g'. snd (it_initializing parent_mixin 0
      \<lparr>options = [(''package'', JStr ''com123''), (''parent'', JObj [(''groupId'', JStr ''com.mysite'')])],
       props = [], config = [], relativePath = JStr ''it'', destinationRoot = ''/project'',
       composed = [], written = None\<rparr>) = Inr g'
       \<and> get (props g') ''package'' = JStr ''com.mysite'')"
proof -
  let ?g = "\<lparr>options = [(''package'', JStr ''com123''), (''parent'', JObj [(''groupId'', JStr ''com.mysite'')])],
       props = [], config = [], relativePath = JStr ''it'', destinationRoot = ''/project'',
       composed = [], written = None\<rparr>"
  let ?g1 = "\<lparr>options = [(''package'', JStr ''com123''), (''parent'', JObj [(''groupId'', JStr ''com.mysite'')])],
       props = [(''parent'', JObj [(''groupId'', JStr ''com.mysite'')])], config = [],
       relativePath = JStr ''it'', destinationRoot = ''/project'', composed = [], written = None\<rparr>"
  have h1: "parent_mixin (snd (it_initializing_pick 0 ?g)) = Inr ?g1"
    by (simp add: it_initializing_pick_def uniqueProperties_def pick_def defaults_def get_Nil get_Cons
        delete_key_def invalidPackageRegex_test_def invalidPackageChar_def parent_mixin_def)
  have h2: "read_prop (get (props ?g1) ''parent'') ''groupId'' = Inr (JStr ''com.mysite'')"
    by (simp add: get_Cons)
  have h3: "truthy (JStr ''com.mysite'')" by simp
  have h4: "\<not> truthy (get (props ?g1) ''package'')" by (simp add: get_Cons get_Nil)
  from it_initializing_package_from_parent [where mixin_initializing = parent_mixin, OF h1 h2 h3 h4] h1 show ?thesis by simp
qed

subsection \<open>Resolution of the root properties\<close>

lemma adopt_pom_aemVersion_eq:
  "adopt_pom_aemVersion pom p =
     Inr (if truthy (pom_aem_version pom)
          then assign p ''aemVersion'' (js_or (get p ''aemVersion'') (pom_aem_version pom))
          else p)"
  by (cases "get pom ''pomProperties''")
     (simp_all add: adopt_pom_aemVersion_def pom_aem_version_def Let_def)

lemma app_initializing_Inr:
  assumes "app_initializing readPom commonsProps commonsOptionKeys relative resolve modules g = Inr g'"
  shows "props g' =
    (let options' = delete_key (options g) ''generateInto'';
         pom = readPom (js_or (get (options g) ''generateInto'') (JStr relative));
         p3 = defaults (defaults (defaults [] (pick options' unique)) (pick (config g) unique))
                (omit pom [''pomProperties'']);
         p4 = (if truthy (pom_aem_version pom)
               then assign p3 ''aemVersion'' (js_or (get p3 ''aemVersion'') (pom_aem_version pom))
               else p3);
         p5 = defaults p4 commonsProps
     in if truthy (get options' ''defaults'')
        then defaults p5 [(''version'', JStr ''1.0.0-SNAPSHOT''), (''aemVersion'', JStr ''cloud'')]
        else p5)"
    and "options g' = delete_key (options g) ''generateInto''"
    and "config g' = config g"
  using assms
  by (auto simp: app_initializing_def Let_def adopt_pom_aemVersion_eq
      split: sum.splits jsval.splits)




lemma app_initializing_runs:
  "(\<exists>g'. app_initializing readPom commonsProps commonsOptionKeys relative resolve modules g = Inr g')
     = ((\<exists>paths. resolve_all resolve modules = Inr paths)
        \<and> (\<exists>d. js_or (get (options g) ''generateInto'') (JStr relative) = JStr d))"
  by (auto simp: app_initializing_def Let_def adopt_pom_aemVersion_eq
      split: sum.splits jsval.splits)

lemma delete_key_idem: "delete_key (delete_key b k) k = delete_key b k"
  by (simp add: delete_key_def)

lemmas eval_bag = app_initializing_def Let_def adopt_pom_aemVersion_def defaults_def pick_def omit_def
  delete_key_def get_def js_or_def unique_def




text \<open>
  Claim C8, as amended. Root resolution deletes \<open>generateInto\<close> from the options and
  changes nothing else of the options or of the persisted configuration; resolving again
  from the options it leaves gives the same property bag, provided the descriptor read at
  the relative context path (the second run's destination) is the one read at the first
  run's destination.
\<close>

theorem app_initializing_idempotent:
  assumes "app_initializing readPom commonsProps commonsOptionKeys relative resolve modules g = Inr g'"
      and "readPom (JStr relative) = readPom (js_or (get (options g) ''generateInto'') (JStr relative))"
  shows "options g' = delete_key (options g) ''generateInto''
       \<and> config g' = config g
       \<and> (\<exists>g''. app_initializing readPom commonsProps commonsOptionKeys relative resolve modules g'
                   = Inr g''
                \<and> props g'' = props g' \<and> options g'' = options g' \<and> config g'' = config g')"
proof -
  note first = app_initializing_Inr [OF assms(1)]
  from assms(1) have "\<exists>paths. resolve_all resolve modules = Inr paths"
    using app_initializing_runs by blast
  moreover have dest: "js_or (get (options g') ''generateInto'') (JStr relative) = JStr relative"
    by (simp add: first(2) get_delete_key js_or_def)
  ultimately obtain g'' where
    second: "app_initializing readPom commonsProps commonsOptionKeys relative resolve modules g' = Inr g''"
    using app_initializing_runs [of readPom commonsProps commonsOptionKeys relative resolve modules g']
    by auto
  have "props g'' = props g'"
    unfolding app_initializing_Inr(1) [OF second] first(1) dest
    by (simp add: first(2,3) delete_key_idem assms(2))
  moreover have "options g'' = options g'"
    by (simp add: app_initializing_Inr(2) [OF second] first(2) delete_key_idem)
  moreover have "config g'' = config g'"
    by (simp add: app_initializing_Inr(3) [OF second])
  ultimately show ?thesis using first(2,3) second by simp
qed

theorem app_initializing_idempotent_witness:
  "app_initializing (\<lambda>dest. [(''version'', JStr ''1.0.0'')]) [] [] ''.'' Inr []
     \<lparr>options = [(''generateInto'', JStr ''sub''), (''groupId'', JStr ''com.mysite'')],
      props = [], config = [(''aemVersion'', JStr ''cloud'')], relativePath = JStr ''.'',
      destinationRoot = ''/project'', composed = [], written = None\<rparr>
   = Inr \<lparr>options = [(''groupId'', JStr ''com.mysite'')],
      props = [(''groupId'', JStr ''com.mysite''), (''aemVersion'', JStr ''cloud''),
               (''version'', JStr ''1.0.0'')],
      config = [(''aemVersion'', JStr ''cloud'')], relativePath = JStr ''.'',
      destinationRoot = ''/project'', composed = [], written = None\<rparr>
   \<and> (\<exists>g''. app_initializing (\<lambda>dest. [(''version'', JStr ''1.0.0'')]) [] [] ''.'' Inr []
         \<lparr>options = [(''groupId'', JStr ''com.mysite'')],
          props = [(''groupId'', JStr ''com.mysite''), (''aemVersion'', JStr ''cloud''),
                   (''version'', JStr ''1.0.0'')],
          config = [(''aemVersion'', JStr ''cloud'')], relativePath = JStr ''.'',
          destinationRoot = ''/project'', composed = [], written = None\<rparr> = Inr g''
        \<and> props g'' = [(''groupId'', JStr ''com.mysite''), (''aemVersion'', JStr ''cloud''),
                        (''version'', JStr ''1.0.0'')]
        \<and> options g'' = [(''groupId'', JStr ''com.mysite'')])"
proof -
  let ?readPom = "\<lambda>dest::jsval. [(''version'', JStr ''1.0.0'')]"
  let ?g = "\<lparr>options = [(''generateInto'', JStr ''sub''), (''groupId'', JStr ''com.mysite'')],
      props = [], config = [(''aemVersion'', JStr ''cloud'')], relativePath = JStr ''.'',
      destinationRoot = ''/project'', composed = [], written = None\<rparr>"
  let ?g' = "\<lparr>options = [(''groupId'', JStr ''com.mysite'')],
      props = [(''groupId'', JStr ''com.mysite''), (''aemVersion'', JStr ''cloud''),
               (''version'', JStr ''1.0.0'')],
      config = [(''aemVersion'', JStr ''cloud'')], relativePath = JStr ''.'',
      destinationRoot = ''/project'', composed = [], written = None\<rparr>"
  have run: "app_initializing ?readPom [] [] ''.'' Inr [] ?g = Inr ?g'"
    by (simp add: eval_bag)
  have same: "?readPom (JStr ''.'') = ?readPom (js_or (get (options ?g) ''generateInto'') (JStr ''.''))"
    by simp
  from app_initializing_idempotent [where readPom = ?readPom and resolve = Inr, OF run same]
  obtain g'' where "app_initializing ?readPom [] [] ''.'' Inr [] ?g' = Inr g''"
    and "props g'' = props ?g'" and "options g'' = options ?g'"
    by blast
  with run show ?thesis by simp
qed

text \<open>
  The claim as first stated fails on a run with \<open>generateInto\<close>: the options bag comes
  back without the key, and the second resolution reads another descriptor and ends with
  another version.
\<close>

theorem app_initializing_idempotence_counterexample:
  "app_initializing
     (\<lambda>dest. if dest = JStr ''sub'' then [(''version'', JStr ''1.0.0'')] else [(''version'', JStr ''2.0.0'')])
     [] [] ''.'' Inr []
     \<lparr>options = [(''generateInto'', JStr ''sub''), (''groupId'', JStr ''com.mysite'')],
      props = [], config = [], relativePath = JStr ''.'', destinationRoot = ''/project'',
      composed = [], written = None\<rparr>
   = Inr \<lparr>options = [(''groupId'', JStr ''com.mysite'')],
      props = [(''groupId'', JStr ''com.mysite''), (''version'', JStr ''1.0.0'')],
      config = [], relativePath = JStr ''.'', destinationRoot = ''/project'',
      composed = [], written = None\<rparr>
   \<and> app_initializing
     (\<lambda>dest. if dest = JStr ''sub'' then [(''version'', JStr ''1.0.0'')] else [(''version'', JStr ''2.0.0'')])
     [] [] ''.'' Inr []
     \<lparr>options = [(''groupId'', JStr ''com.mysite'')],
      props = [(''groupId'', JStr ''com.mysite''), (''version'', JStr ''1.0.0'')],
      config = [], relativePath = JStr ''.'', destinationRoot = ''/project'',
      composed = [], written = None\<rparr>
   = Inr \<lparr>options = [(''groupId'', JStr ''com.mysite'')],
      props = [(''groupId'', JStr ''com.mysite''), (''version'', JStr ''2.0.0'')],
      config = [], relativePath = JStr ''.'', destinationRoot = ''/project'',
      composed = [], written = None\<rparr>"
  by (simp add: eval_bag)

subsection \<open>Runs of the integration tests generator\<close>

text \<open>
  What does hold of the three places the runs below go wrong. On a regular expression
  whose \<open>lastIndex\<close> is 0 the test finds every package with a character outside letters
  and periods, and a package without one passes from any \<open>lastIndex\<close>. A rejected
  testing client release rejects \<open>writing\<close>, whose result does not depend on the platform
  API release at all. Without the defaults flag \<open>publish\<close> stays as it was.
\<close>

lemma first_match_None: "(first_match i s = None) = (\<forall>c \<in> set s. \<not> invalidPackageChar c)"
  by (induction s arbitrary: i) auto

lemma invalidPackageRegex_test_fresh:
  "fst (invalidPackageRegex_test 0 s) = (\<exists>c \<in> set s. invalidPackageChar c)"
proof (cases "first_match 0 s")
  case None
  then show ?thesis using first_match_None [of 0 s] by (simp add: invalidPackageRegex_test_def)
next
  case (Some i)
  then show ?thesis using first_match_None [of 0 s] by (simp add: invalidPackageRegex_test_def)
qed

lemma invalidPackageRegex_test_valid:
  assumes "\<forall>c \<in> set s. \<not> invalidPackageChar c"
  shows "invalidPackageRegex_test lastIndex s = (False, 0)"
proof -
  from assms have "\<forall>c \<in> set (drop lastIndex s). \<not> invalidPackageChar c"
    by (meson in_set_dropD)
  then have "first_match lastIndex (drop lastIndex s) = None"
    by (simp add: first_match_None)
  then show ?thesis by (simp add: invalidPackageRegex_test_def)
qed

lemma it_writing_first_rejection:
  assumes "read_prop (get (props g) ''parent'') ''aemVersion'' = Inr v"
      and "latestRelease (testClientCoordinates v) = Rejected e"
  shows "it_writing latestRelease apiCoordinates listTemplates sep g = Inr (Rejected e)"
  using assms by (simp add: it_writing_def Let_def then_call_def then_value_def)

lemma it_writing_api_release_unused:
  assumes "read_prop (get (props g) ''parent'') ''aemVersion'' = Inr v"
      and "latestRelease (testClientCoordinates v) = latestRelease' (testClientCoordinates v)"
  shows "it_writing latestRelease apiCoordinates listTemplates sep g
         = it_writing latestRelease' apiCoordinates' listTemplates sep g"
  using assms by (simp add: it_writing_def Let_def then_value_def)

lemma it_initializing_fill_publish_unflagged:
  assumes "\<not> truthy (get (options g) ''defaults'')"
      and "it_initializing_fill g = Inr g'"
  shows "get (props g') ''publish'' = get (props g) ''publish''"
  using assms
  by (auto simp: it_initializing_fill_def Let_def get_assign split: sum.splits if_splits)

text \<open>
  Claim C3. The claim asks that both resolutions complete before the files are emitted and
  that a failure of either aborts the write. Run with a testing client release that
  resolves and a platform API release that is rejected, \<open>writing\<close> emits the files all
  the same, with \<open>aem\<close> set to \<open>undefined\<close>: line 159 hands \<open>then\<close> the promise itself,
  not a function, so the chain never waits for it.
\<close>

theorem it_writing_ignores_api_release:
  "it_writing
     (\<lambda>coordinates. if coordinates = testClientCoordinates (JStr ''cloud'')
                     then Fulfilled (JObj [(''version'', JStr ''1.0.0'')])
                     else Rejected (Error ''Unable to retrieve metadata''))
     (\<lambda>version. JObj [(''groupId'', JStr ''com.adobe.aem''), (''artifactId'', JStr ''aem-sdk-api'')])
     (\<lambda>name. if name = ''shared'' then [''pom.xml''] else [''Publish.java''])
     ''/''
     \<lparr>options = [], props = [(''package'', JStr ''com.mysite''), (''publish'', JBool True),
                              (''parent'', JObj [(''aemVersion'', JStr ''cloud'')])],
      config = [], relativePath = JStr ''it'', destinationRoot = ''/project'',
      composed = [], written = None\<rparr>
   = Inr (Fulfilled
      \<lparr>options = [], props = [(''package'', JStr ''com.mysite''), (''publish'', JBool True),
                              (''parent'', JObj [(''aemVersion'', JStr ''cloud'')]),
                              (''testingClient'', JObj [(''version'', JStr ''1.0.0'')]),
                              (''aem'', JUndefined), (''packagePath'', JStr ''com/mysite'')],
      config = [], relativePath = JStr ''it'', destinationRoot = ''/project'',
      composed = [], written = Some [''pom.xml'', ''Publish.java'']\<rparr>)"
  by (simp add: it_writing_def Let_def writing_files_def then_call_def then_value_def get_def
      testClientCoordinates_def replaceAll_dot_def)

text \<open>
  Claim C4. The claim asks that a supplied \<open>publish\<close>, also \<open>false\<close>, is never replaced
  by the fallback. Run with \<open>publish\<close> false and the defaults flag set, \<open>initializing\<close>
  ends with \<open>publish\<close> true.
\<close>

theorem it_initializing_overrides_publish:
  "it_initializing parent_mixin 0
     \<lparr>options = [(''publish'', JBool False), (''defaults'', JBool True),
                 (''parent'', JObj [(''groupId'', JStr ''com.mysite'')])],
      props = [], config = [], relativePath = JStr ''it'', destinationRoot = ''/project'',
      composed = [], written = None\<rparr>
   = (0, Inr
     \<lparr>options = [(''publish'', JBool False), (''defaults'', JBool True),
                 (''parent'', JObj [(''groupId'', JStr ''com.mysite'')])],
      props = [(''publish'', JBool True), (''parent'', JObj [(''groupId'', JStr ''com.mysite'')]),
               (''package'', JStr ''com.mysite'')],
      config = [], relativePath = JStr ''it'', destinationRoot = ''/project'',
      composed = [], written = None\<rparr>)"
  by (simp add: it_initializing_def it_initializing_pick_def it_initializing_fill_def parent_mixin_def
      Let_def uniqueProperties_def defaults_def pick_def get_def js_or_def)

text \<open>
  Claim C5. The claim asks that a supplied package with a character outside letters and
  periods is deleted from the bag. Run twice on the package \<open>com1\<close>, \<open>initializing\<close>
  deletes it the first time and leaves the regular expression's \<open>lastIndex\<close> at 4; the
  second run starts the search there, finds nothing and keeps \<open>com1\<close>.
\<close>

theorem it_initializing_keeps_invalid_package:
  "it_initializing parent_mixin 0
     \<lparr>options = [(''package'', JStr ''com1''), (''parent'', JObj [(''aemVersion'', JStr ''cloud'')])],
      props = [], config = [], relativePath = JStr ''it'', destinationRoot = ''/project'',
      composed = [], written = None\<rparr>
   = (4, Inr
     \<lparr>options = [(''package'', JStr ''com1''), (''parent'', JObj [(''aemVersion'', JStr ''cloud'')])],
      props = [(''parent'', JObj [(''aemVersion'', JStr ''cloud'')])],
      config = [], relativePath = JStr ''it'', destinationRoot = ''/project'',
      composed = [], written = None\<rparr>)
   \<and> it_initializing parent_mixin 4
     \<lparr>options = [(''package'', JStr ''com1''), (''parent'', JObj [(''aemVersion'', JStr ''cloud'')])],
      props = [], config = [], relativePath = JStr ''it'', destinationRoot = ''/project'',
      composed = [], written = None\<rparr>
   = (0, Inr
     \<lparr>options = [(''package'', JStr ''com1''), (''parent'', JObj [(''aemVersion'', JStr ''cloud'')])],
      props = [(''package'', JStr ''com1''), (''parent'', JObj [(''aemVersion'', JStr ''cloud'')])],
      config = [], relativePath = JStr ''it'', destinationRoot = ''/project'',
      composed = [], written = None\<rparr>)"
  by (simp add: it_initializing_def it_initializing_pick_def it_initializing_fill_def parent_mixin_def
      Let_def uniqueProperties_def defaults_def pick_def delete_key_def get_def js_or_def
      invalidPackageRegex_test_def invalidPackageChar_def)

end
